theory Spec2Isabelle
  imports Complex_Main
begin

section \<open>Data model (src/agents/base.py)\<close>

text \<open>
  Python floats are modelled by the real numbers they denote: the scope decision only
  compares a score with two constants; the drift ratio and the score transform are
  taken in exact arithmetic. Pydantic's field constraints keep NaN out of a
  \<open>CalibrationState\<close>.
\<close>

datatype ActionScope = AUTONOMOUS | NOTIFY | ESCALATE

text \<open>The enum's \<open>.value\<close>.\<close>

fun ActionScope_value :: "ActionScope \<Rightarrow> string" where
  "ActionScope_value AUTONOMOUS = ''autonomous''"
| "ActionScope_value NOTIFY = ''notify''"
| "ActionScope_value ESCALATE = ''escalate''"

text \<open>A \<open>datetime\<close> is a clock reading, counted in microseconds.\<close>

type_synonym datetime = nat

record CalibrationState =
  cluster_id :: string
  score :: real
  sample_count :: int
  last_updated :: datetime
  is_learning_mode :: bool
  recalibration_needed :: bool

datatype py_error =
  ValidationError "string list"
  | NotImplementedError string
  | RuntimeError string

text \<open>
  The constructor of the pydantic model: \<open>Field(ge=0.0, le=1.0)\<close> on \<open>score\<close> and
  \<open>Field(ge=0)\<close> on \<open>sample_count\<close> are checked, and a \<open>ValidationError\<close> that
  lists the fields that fail is raised; no other field is constrained.
\<close>

definition CalibrationState_init ::
  "string \<Rightarrow> real \<Rightarrow> int \<Rightarrow> datetime \<Rightarrow> bool \<Rightarrow> bool \<Rightarrow> py_error + CalibrationState" where
  "CalibrationState_init cid s n t lm rn =
     (let failed = (if 0 \<le> s \<and> s \<le> 1 then [] else [''score''])
                 @ (if 0 \<le> n then [] else [''sample_count''])
      in if failed = [] then
           Inr \<lparr>cluster_id = cid, score = s, sample_count = n, last_updated = t,
                is_learning_mode = lm, recalibration_needed = rn\<rparr>
         else Inl (ValidationError failed))"

definition determine_action_scope :: "CalibrationState \<Rightarrow> ActionScope" where
  "determine_action_scope calibration =
     (if sample_count calibration < 50 \<or> is_learning_mode calibration then ESCALATE
      else if score calibration > 0.85 then AUTONOMOUS
      else if score calibration > 0.60 then NOTIFY
      else ESCALATE)"

record 'd ToolResult =
  success :: bool
  data :: "'d option"
  error :: "string option"

section \<open>Calibration store, drift and score (src/agents/calibrator.py)\<close>

text \<open>
  The message of a \<open>DriftStatus\<close> is an f-string that prints the ratio with one
  decimal; it is kept as its parts, the ratio and the words after it.
\<close>

datatype drift_message = Calibration_stable | ECE_increased real string

record DriftStatus =
  severity :: string
  action :: string
  message :: drift_message
  drift_ratio :: real

text \<open>The module-level dictionary \<open>_calibration_cache\<close>.\<close>

type_synonym calibration_cache = "string \<rightharpoonup> CalibrationState"

text \<open>
  \<open>get_calibration_state\<close> reads the cache and leaves it as it is; for a key that is
  absent it builds the default record, stamped with the clock reading \<open>now\<close> of the call.
\<close>

definition get_calibration_state ::
  "calibration_cache \<Rightarrow> string \<Rightarrow> datetime \<Rightarrow> py_error + CalibrationState" where
  "get_calibration_state cache cid now =
     (case cache cid of
        Some st \<Rightarrow> Inr st
      | None \<Rightarrow> CalibrationState_init cid 0.5 0 now True False)"

text \<open>
  \<open>update_calibration_state\<close>: the argument \<open>recalibration_needed\<close> is optional and
  defaults to \<open>False\<close>. The record is built (and validated) before the cache is
  written, so a call that raises leaves the cache unchanged.
\<close>

definition update_calibration_state ::
  "calibration_cache \<Rightarrow> string \<Rightarrow> real \<Rightarrow> int \<Rightarrow> bool option \<Rightarrow> datetime
     \<Rightarrow> (py_error + CalibrationState) \<times> calibration_cache" where
  "update_calibration_state cache cid s n rn now =
     (case CalibrationState_init cid s n now (n < 50)
             (case rn of None \<Rightarrow> False | Some b \<Rightarrow> b) of
        Inl e \<Rightarrow> (Inl e, cache)
      | Inr st \<Rightarrow> (Inr st, cache(cid \<mapsto> st)))"

definition check_calibration_drift :: "real \<Rightarrow> real \<Rightarrow> DriftStatus" where
  "check_calibration_drift current_ece baseline_ece =
     (let baseline = (if baseline_ece \<le> 0 then 0.018 else baseline_ece);
          ratio = current_ece / baseline
      in if ratio \<le> 1.5 then
           \<lparr>severity = ''none'', action = ''continue'',
            message = Calibration_stable, drift_ratio = ratio\<rparr>
         else if ratio \<le> 2.0 then
           \<lparr>severity = ''moderate'', action = ''monitor'',
            message = ECE_increased ratio ''from baseline'', drift_ratio = ratio\<rparr>
         else if ratio \<le> 5.0 then
           \<lparr>severity = ''significant'', action = ''reduce_autonomy'',
            message = ECE_increased ratio ''reducing autonomous actions'',
            drift_ratio = ratio\<rparr>
         else
           \<lparr>severity = ''critical'', action = ''trigger_recalibration'',
            message = ECE_increased ratio ''recalibration required'',
            drift_ratio = ratio\<rparr>)"

definition ece_to_calibration_score :: "real \<Rightarrow> real" where
  "ece_to_calibration_score ece = max 0.0 (min 1.0 (1.0 - (ece * 5)))"

text \<open>
  The clamp of the specification (section 4.3), written from its words: a value below
  the lower bound becomes the lower bound, one above the upper bound the upper bound.
\<close>

definition clamp_spec :: "real \<Rightarrow> real \<Rightarrow> real \<Rightarrow> real" where
  "clamp_spec x lo hi = (if x < lo then lo else if hi < x then hi else x)"

text \<open>
  The \<open>metrics\<close> dictionary of \<open>CalibratorAgent._update_profile\<close>, reduced to the two
  keys the method reads, \<open>"ece"\<close> and \<open>"sample_count"\<close>; \<open>None\<close> is an absent key.
\<close>

record metrics =
  ece_entry :: "real option"
  sample_count_entry :: "int option"

definition CalibratorAgent_update_profile ::
  "calibration_cache \<Rightarrow> string \<Rightarrow> metrics \<Rightarrow> datetime
     \<Rightarrow> (py_error + (string \<times> CalibrationState) ToolResult) \<times> calibration_cache" where
  "CalibratorAgent_update_profile cache cid m now =
     (let ece = (case ece_entry m of None \<Rightarrow> 0.1 | Some e \<Rightarrow> e);
          n = (case sample_count_entry m of None \<Rightarrow> 0 | Some k \<Rightarrow> k);
          s = ece_to_calibration_score ece
      in case update_calibration_state cache cid s n None now of
           (Inl e, cache') \<Rightarrow> (Inl e, cache')
         | (Inr updated, cache') \<Rightarrow>
             (Inr \<lparr>success = True, data = Some (cid, updated), error = None\<rparr>, cache'))"

text \<open>
  \<open>CalibratorAgent._trigger_recalibration\<close> reads the clock twice, once in the read and
  once in the update; the first reading only stamps a default record whose stamp is
  dropped, so one reading \<open>now\<close> stands for both.
\<close>

definition CalibratorAgent_trigger_recalibration ::
  "calibration_cache \<Rightarrow> string \<Rightarrow> string \<Rightarrow> datetime
     \<Rightarrow> (py_error + (string \<times> string \<times> bool \<times> CalibrationState) ToolResult)
        \<times> calibration_cache" where
  "CalibratorAgent_trigger_recalibration cache cid why now =
     (case get_calibration_state cache cid now of
        Inl e \<Rightarrow> (Inl e, cache)
      | Inr st \<Rightarrow>
          (case update_calibration_state cache cid (score st) (sample_count st)
                  (Some True) now of
             (Inl e, cache') \<Rightarrow> (Inl e, cache')
           | (Inr updated, cache') \<Rightarrow>
               (Inr \<lparr>success = True, data = Some (cid, why, True, updated),
                     error = None\<rparr>, cache')))"

section \<open>Gated execution (src/agents/actor.py)\<close>

text \<open>
  The three dictionaries \<open>execute_with_gating\<close> hands to \<open>invoke_tool\<close>, one
  constructor for each call site: the caller's own \<open>parameters\<close>, passed through with
  the requested action; the escalation payload, whose reason is an f-string over the
  score and the cluster id and whose context holds the action and its parameters; the
  Slack payload, a channel and a message that names the action.
\<close>

datatype 'p tool_args =
  Action_params 'p
  | Escalate_params real string string 'p
  | Slack_params string string

text \<open>
  \<open>invoke_tool\<close> is abstract in \<open>BaseAgent\<close>: it is a parameter here, a function of the
  tool name, the arguments and the state \<open>'w\<close> of whatever it drives, that returns
  a \<open>ToolResult\<close> or raises, and the next state. The agent's state during one request
  is the list of the calls made so far, oldest first, and that state.
\<close>

type_synonym ('p, 'd, 'w) invoke_tool =
  "string \<Rightarrow> 'p tool_args \<Rightarrow> 'w \<Rightarrow> (py_error + 'd ToolResult) \<times> 'w"

type_synonym ('p, 'w) agent_state = "(string \<times> 'p tool_args) list \<times> 'w"

definition call_tool ::
  "('p, 'd, 'w) invoke_tool \<Rightarrow> string \<Rightarrow> 'p tool_args \<Rightarrow> ('p, 'w) agent_state
     \<Rightarrow> (py_error + 'd ToolResult) \<times> ('p, 'w) agent_state" where
  "call_tool invoke name args st =
     (case invoke name args (snd st) of
        (r, w') \<Rightarrow> (r, (fst st @ [(name, args)], w')))"

text \<open>\<open>ActorAgent.invoke_tool\<close> as the repository has it: every tool raises.\<close>

definition ActorAgent_invoke_tool :: "('p, 'd, 'w) invoke_tool" where
  "ActorAgent_invoke_tool name args w =
     (Inl (NotImplementedError (''Tool '' @ name @ '' not yet implemented'')), w)"

text \<open>The dictionary that \<open>execute_with_gating\<close> returns; \<open>None\<close> is an absent key.\<close>

record 'd GatedOutcome =
  executed :: bool
  reason :: "string option"
  result :: "'d ToolResult option"
  notified_human :: "bool option"
  action_scope :: string

definition execute_with_gating ::
  "('p, 'd, 'w) invoke_tool \<Rightarrow> calibration_cache \<Rightarrow> datetime \<Rightarrow> string \<Rightarrow> string \<Rightarrow> 'p
     \<Rightarrow> ('p, 'w) agent_state \<Rightarrow> (py_error + 'd GatedOutcome) \<times> ('p, 'w) agent_state" where
  "execute_with_gating invoke cache now cid act parameters st =
     (case get_calibration_state cache cid now of
        Inl e \<Rightarrow> (Inl e, st)
      | Inr calibration \<Rightarrow>
          (let scope = determine_action_scope calibration in
           if scope = ESCALATE then
             (case call_tool invoke ''tool_escalate_to_human''
                     (Escalate_params (score calibration) cid act parameters) st of
                (Inl e, st1) \<Rightarrow> (Inl e, st1)
              | (Inr _, st1) \<Rightarrow>
                  (Inr \<lparr>executed = False,
                        reason = Some ''Escalated to human due to low calibration'',
                        result = None, notified_human = None,
                        action_scope = ActionScope_value scope\<rparr>, st1))
           else if scope = NOTIFY then
             (case call_tool invoke act (Action_params parameters) st of
                (Inl e, st1) \<Rightarrow> (Inl e, st1)
              | (Inr res, st1) \<Rightarrow>
                  (case call_tool invoke ''tool_send_slack_notification''
                          (Slack_params ''#gpu-alerts'' act) st1 of
                     (Inl e, st2) \<Rightarrow> (Inl e, st2)
                   | (Inr _, st2) \<Rightarrow>
                       (Inr \<lparr>executed = True, reason = None, result = Some res,
                             notified_human = Some True,
                             action_scope = ActionScope_value scope\<rparr>, st2)))
           else
             (case call_tool invoke act (Action_params parameters) st of
                (Inl e, st1) \<Rightarrow> (Inl e, st1)
              | (Inr res, st1) \<Rightarrow>
                  (Inr \<lparr>executed = True, reason = None, result = Some res,
                        notified_human = Some False,
                        action_scope = ActionScope_value scope\<rparr>, st1))))"

text \<open>
  Which entries of the call list are executions of the requested action, escalations
  and notifications.
\<close>

fun is_action_call :: "string \<times> 'p tool_args \<Rightarrow> bool" where
  "is_action_call (name, Action_params p) = True"
| "is_action_call (name, Escalate_params s c a p) = False"
| "is_action_call (name, Slack_params c a) = False"

fun is_escalation_call :: "string \<times> 'p tool_args \<Rightarrow> bool" where
  "is_escalation_call (name, Escalate_params s c a p) = (name = ''tool_escalate_to_human'')"
| "is_escalation_call (name, Action_params p) = False"
| "is_escalation_call (name, Slack_params c a) = False"

fun is_notification_call :: "string \<times> 'p tool_args \<Rightarrow> bool" where
  "is_notification_call (name, Slack_params c a) = (name = ''tool_send_slack_notification'')"
| "is_notification_call (name, Action_params p) = False"
| "is_notification_call (name, Escalate_params s c a p) = False"

text \<open>
  Three stand-ins for \<open>invoke_tool\<close>, in the manner of the mocks of tests/conftest.py.
  All count the tools that ran to completion in a state of type \<open>nat\<close>. The first
  runs every tool; the second cannot reach Slack and raises on the notification tool;
  the third reports the failed notification in its \<open>ToolResult\<close>.
\<close>

definition mock_invoke_tool :: "('p, 'd, nat) invoke_tool" where
  "mock_invoke_tool name args w =
     (Inr \<lparr>success = True, data = None, error = None\<rparr>, Suc w)"

definition mock_invoke_tool_slack_down :: "('p, 'd, nat) invoke_tool" where
  "mock_invoke_tool_slack_down name args w =
     (if name = ''tool_send_slack_notification''
      then (Inl (RuntimeError ''slack unavailable''), w)
      else (Inr \<lparr>success = True, data = None, error = None\<rparr>, Suc w))"

definition mock_invoke_tool_slack_refuses :: "('p, 'd, nat) invoke_tool" where
  "mock_invoke_tool_slack_refuses name args w =
     (if name = ''tool_send_slack_notification''
      then (Inr \<lparr>success = False, data = None, error = Some ''channel_not_found''\<rparr>, w)
      else (Inr \<lparr>success = True, data = None, error = None\<rparr>, Suc w))"

text \<open>Caches with the single environment of the tests with score 0.45 and 0.72.\<close>

definition cache_low :: calibration_cache where
  "cache_low = Map.empty(''unknown-batch'' \<mapsto>
     \<lparr>cluster_id = ''unknown-batch'', score = 0.45, sample_count = 200,
      last_updated = 0, is_learning_mode = False, recalibration_needed = False\<rparr>)"

definition cache_medium :: calibration_cache where
  "cache_medium = Map.empty(''slurm-hpc'' \<mapsto>
     \<lparr>cluster_id = ''slurm-hpc'', score = 0.72, sample_count = 500,
      last_updated = 0, is_learning_mode = False, recalibration_needed = False\<rparr>)"

text \<open>
  A cache in which \<open>eks-prod\<close> was updated and then flagged for recalibration by
  \<open>CalibratorAgent._trigger_recalibration\<close>.
\<close>

definition cache_flagged :: calibration_cache where
  "cache_flagged =
     snd (CalibratorAgent_trigger_recalibration
            (snd (update_calibration_state Map.empty ''eks-prod'' 0.92 1847 None 0))
            ''eks-prod'' ''drift'' 1)"

section \<open>Scope resolution\<close>

text \<open>
  C2. A calibration state with fewer than 50 samples, or one in learning mode, resolves
  to ESCALATE whatever its score is.
\<close>

theorem determine_action_scope_learning:
  assumes "sample_count c < 50 \<or> is_learning_mode c"
  shows "determine_action_scope c = ESCALATE"
  using assms by (simp add: determine_action_scope_def)

text \<open>C2 at the state of the test suite (score 0.9, 10 samples) and at 49 samples.\<close>

theorem determine_action_scope_learning_witness:
  "determine_action_scope
     \<lparr>cluster_id = ''new-cluster'', score = 0.9, sample_count = 10, last_updated = 0,
      is_learning_mode = True, recalibration_needed = False\<rparr> = ESCALATE
   \<and> determine_action_scope
     \<lparr>cluster_id = ''new-cluster'', score = 1, sample_count = 49, last_updated = 0,
      is_learning_mode = False, recalibration_needed = False\<rparr> = ESCALATE"
  using determine_action_scope_learning
    [of "\<lparr>cluster_id = ''new-cluster'', score = 0.9, sample_count = 10, last_updated = 0,
          is_learning_mode = True, recalibration_needed = False\<rparr>"]
    determine_action_scope_learning
    [of "\<lparr>cluster_id = ''new-cluster'', score = 1, sample_count = 49, last_updated = 0,
          is_learning_mode = False, recalibration_needed = False\<rparr>"]
  by simp

text \<open>
  C3. With at least 50 samples and learning mode off, the scope is AUTONOMOUS exactly
  when the score exceeds 0.85, NOTIFY exactly when it lies in (0.60, 0.85], and ESCALATE
  exactly when it is at most 0.60; a score of exactly 0.85 gives NOTIFY and a score of
  exactly 0.60 gives ESCALATE.
\<close>

theorem determine_action_scope_thresholds:
  assumes "sample_count c \<ge> 50" and "\<not> is_learning_mode c"
  shows "(determine_action_scope c = AUTONOMOUS) = (score c > 0.85)
    \<and> (determine_action_scope c = NOTIFY) = (0.60 < score c \<and> score c \<le> 0.85)
    \<and> (determine_action_scope c = ESCALATE) = (score c \<le> 0.60)
    \<and> (score c = 0.85 \<longrightarrow> determine_action_scope c = NOTIFY)
    \<and> (score c = 0.60 \<longrightarrow> determine_action_scope c = ESCALATE)"
  using assms by (auto simp add: determine_action_scope_def)

text \<open>C3 at the two boundaries.\<close>

theorem determine_action_scope_thresholds_witness:
  "determine_action_scope
     \<lparr>cluster_id = ''test'', score = 0.85, sample_count = 100, last_updated = 0,
      is_learning_mode = False, recalibration_needed = False\<rparr> = NOTIFY
   \<and> determine_action_scope
     \<lparr>cluster_id = ''test'', score = 0.60, sample_count = 50, last_updated = 0,
      is_learning_mode = False, recalibration_needed = False\<rparr> = ESCALATE"
  using determine_action_scope_thresholds
    [of "\<lparr>cluster_id = ''test'', score = 0.85, sample_count = 100, last_updated = 0,
          is_learning_mode = False, recalibration_needed = False\<rparr>"]
    determine_action_scope_thresholds
    [of "\<lparr>cluster_id = ''test'', score = 0.60, sample_count = 50, last_updated = 0,
          is_learning_mode = False, recalibration_needed = False\<rparr>"]
  by simp

section \<open>Drift detection\<close>

text \<open>The function in terms of the ratio it computes.\<close>

lemma check_calibration_drift_by_ratio:
  assumes "r = current_ece / (if baseline_ece \<le> 0 then 0.018 else baseline_ece)"
  shows "check_calibration_drift current_ece baseline_ece =
     (if r \<le> 1.5 then
           \<lparr>severity = ''none'', action = ''continue'',
            message = Calibration_stable, drift_ratio = r\<rparr>
         else if r \<le> 2.0 then
           \<lparr>severity = ''moderate'', action = ''monitor'',
            message = ECE_increased r ''from baseline'', drift_ratio = r\<rparr>
         else if r \<le> 5.0 then
           \<lparr>severity = ''significant'', action = ''reduce_autonomy'',
            message = ECE_increased r ''reducing autonomous actions'',
            drift_ratio = r\<rparr>
         else
           \<lparr>severity = ''critical'', action = ''trigger_recalibration'',
            message = ECE_increased r ''recalibration required'',
            drift_ratio = r\<rparr>)"
  unfolding check_calibration_drift_def Let_def assms by (rule refl)

lemma drift_ratio_check_calibration_drift:
  "drift_ratio (check_calibration_drift current_ece baseline_ece) =
     current_ece / (if baseline_ece \<le> 0 then 0.018 else baseline_ece)"
  by (simp add: check_calibration_drift_by_ratio [OF refl])

text \<open>The cases of the test suite.\<close>

lemma check_calibration_drift_tests:
  "severity (check_calibration_drift 0.020 0.018) = ''none''"
  "severity (check_calibration_drift 0.030 0.018) = ''moderate''"
  "severity (check_calibration_drift 0.060 0.018) = ''significant''"
  "severity (check_calibration_drift 0.100 0.018) = ''critical''"
  "severity (check_calibration_drift 0.396 0.018) = ''critical''"
  "drift_ratio (check_calibration_drift 0.396 0.018) \<ge> 20"
  by (simp_all add: check_calibration_drift_def Let_def)

text \<open>
  C4. For every current and baseline error, the baseline used is 0.018 when the given
  one is not positive (so it is always positive), the ratio is the current error divided
  by it, and the result is none/continue exactly when the ratio is at most 1.5,
  moderate/monitor exactly when it lies in (1.5, 2.0], significant/reduce_autonomy exactly
  when it lies in (2.0, 5.0], and critical/trigger_recalibration exactly when it exceeds
  5.0.
\<close>

theorem check_calibration_drift_classification:
  "let baseline = (if baseline_ece \<le> 0 then 0.018 else baseline_ece);
       ratio = current_ece / baseline;
       d = check_calibration_drift current_ece baseline_ece
   in 0 < baseline \<and> drift_ratio d = ratio
      \<and> (severity d = ''none'') = (ratio \<le> 1.5)
      \<and> (action d = ''continue'') = (ratio \<le> 1.5)
      \<and> (severity d = ''moderate'') = (1.5 < ratio \<and> ratio \<le> 2.0)
      \<and> (action d = ''monitor'') = (1.5 < ratio \<and> ratio \<le> 2.0)
      \<and> (severity d = ''significant'') = (2.0 < ratio \<and> ratio \<le> 5.0)
      \<and> (action d = ''reduce_autonomy'') = (2.0 < ratio \<and> ratio \<le> 5.0)
      \<and> (severity d = ''critical'') = (ratio > 5.0)
      \<and> (action d = ''trigger_recalibration'') = (ratio > 5.0)"
proof -
  define b :: real where "b = (if baseline_ece \<le> 0 then 0.018 else baseline_ece)"
  define r where "r = current_ece / b"
  define d where "d = check_calibration_drift current_ece baseline_ece"
  have pos: "0 < b" by (simp add: b_def)
  have r: "r = current_ece / (if baseline_ece \<le> 0 then 0.018 else baseline_ece)"
    by (simp only: r_def b_def)
  have d: "d = (if r \<le> 1.5 then
           \<lparr>severity = ''none'', action = ''continue'',
            message = Calibration_stable, drift_ratio = r\<rparr>
         else if r \<le> 2.0 then
           \<lparr>severity = ''moderate'', action = ''monitor'',
            message = ECE_increased r ''from baseline'', drift_ratio = r\<rparr>
         else if r \<le> 5.0 then
           \<lparr>severity = ''significant'', action = ''reduce_autonomy'',
            message = ECE_increased r ''reducing autonomous actions'',
            drift_ratio = r\<rparr>
         else
           \<lparr>severity = ''critical'', action = ''trigger_recalibration'',
            message = ECE_increased r ''recalibration required'',
            drift_ratio = r\<rparr>)"
    unfolding d_def by (rule check_calibration_drift_by_ratio [OF r])
  have "0 < b \<and> drift_ratio d = r
      \<and> (severity d = ''none'') = (r \<le> 1.5)
      \<and> (action d = ''continue'') = (r \<le> 1.5)
      \<and> (severity d = ''moderate'') = (1.5 < r \<and> r \<le> 2.0)
      \<and> (action d = ''monitor'') = (1.5 < r \<and> r \<le> 2.0)
      \<and> (severity d = ''significant'') = (2.0 < r \<and> r \<le> 5.0)
      \<and> (action d = ''reduce_autonomy'') = (2.0 < r \<and> r \<le> 5.0)
      \<and> (severity d = ''critical'') = (r > 5.0)
      \<and> (action d = ''trigger_recalibration'') = (r > 5.0)"
    unfolding d using pos by auto
  then show ?thesis
    unfolding Let_def d_def r_def b_def .
qed

text \<open>
  C9, as stated, fails: a negative current error gives a negative ratio
  (\<open>-1 / 0.018\<close>), since the current error is not validated.
\<close>

theorem check_calibration_drift_ratio_negative:
  "\<not> 0 \<le> drift_ratio (check_calibration_drift (-1) 0.018)"
  by (simp add: drift_ratio_check_calibration_drift)

text \<open>
  C9, amended. For every current error that is not negative and every baseline error,
  the drift ratio of the result is not negative.
\<close>

theorem check_calibration_drift_ratio_nonneg:
  assumes "0 \<le> current_ece"
  shows "0 \<le> drift_ratio (check_calibration_drift current_ece baseline_ece)"
  unfolding drift_ratio_check_calibration_drift using assms by simp

text \<open>C9, amended, with a positive and with a substituted baseline.\<close>

theorem check_calibration_drift_ratio_nonneg_witness:
  "0 \<le> drift_ratio (check_calibration_drift 0.030 0.018)
   \<and> 0 \<le> drift_ratio (check_calibration_drift 0.030 (-2))"
  using check_calibration_drift_ratio_nonneg [of "0.030" "0.018"]
    check_calibration_drift_ratio_nonneg [of "0.030" "-2"]
  by simp

section \<open>Score transform\<close>

lemma ece_to_calibration_score_range:
  "0 \<le> ece_to_calibration_score e" "ece_to_calibration_score e \<le> 1"
  by (simp_all add: ece_to_calibration_score_def)

lemma ece_to_calibration_score_antimono:
  "e1 \<le> e2 \<Longrightarrow> ece_to_calibration_score e2 \<le> ece_to_calibration_score e1"
  by (simp add: ece_to_calibration_score_def min_def max_def)

lemma ece_to_calibration_score_strict:
  "0 \<le> e1 \<Longrightarrow> e1 < e2 \<Longrightarrow> e2 \<le> 0.2
     \<Longrightarrow> ece_to_calibration_score e2 < ece_to_calibration_score e1"
  by (simp add: ece_to_calibration_score_def min_def max_def)

lemma ece_to_calibration_score_zero_from:
  "0.2 \<le> e \<Longrightarrow> ece_to_calibration_score e = 0"
  by (simp add: ece_to_calibration_score_def min_def max_def)

text \<open>The cases of the test suite.\<close>

lemma ece_to_calibration_score_tests:
  "ece_to_calibration_score 0.018 = 0.91"
  "ece_to_calibration_score 0.2 = 0"
  "0.5 < ece_to_calibration_score 0.08 \<and> ece_to_calibration_score 0.08 < 0.7"
  by (simp_all add: ece_to_calibration_score_def)

text \<open>
  C5. The score of an error is the clamp of \<open>1.0 - ece * 5\<close> to [0, 1]; it never grows
  when the error grows (and falls strictly between errors 0 and 0.2); error 0 gives 1.0;
  every error from 0.2 on gives 0.0; error 0.018 gives a score strictly between 0.90
  and 0.95.
\<close>

theorem ece_to_calibration_score_clamp:
  "ece_to_calibration_score ece = clamp_spec (1.0 - ece * 5) 0.0 1.0
   \<and> (\<forall>e1 e2. e1 \<le> e2 \<longrightarrow> ece_to_calibration_score e2 \<le> ece_to_calibration_score e1)
   \<and> (\<forall>e1 e2. 0 \<le> e1 \<and> e1 < e2 \<and> e2 \<le> 0.2
         \<longrightarrow> ece_to_calibration_score e2 < ece_to_calibration_score e1)
   \<and> ece_to_calibration_score 0 = 1.0
   \<and> (\<forall>e. 0.2 \<le> e \<longrightarrow> ece_to_calibration_score e = 0.0)
   \<and> 0.90 < ece_to_calibration_score 0.018
   \<and> ece_to_calibration_score 0.018 < 0.95"
proof -
  have 1: "ece_to_calibration_score ece = clamp_spec (1.0 - ece * 5) 0.0 1.0"
    by (simp add: ece_to_calibration_score_def clamp_spec_def min_def max_def)
  have 2: "ece_to_calibration_score 0 = 1.0"
    by (simp add: ece_to_calibration_score_def)
  have 3: "0.90 < ece_to_calibration_score 0.018" "ece_to_calibration_score 0.018 < 0.95"
    by (simp_all add: ece_to_calibration_score_def)
  have 4: "\<forall>e1 e2. e1 \<le> e2 \<longrightarrow> ece_to_calibration_score e2 \<le> ece_to_calibration_score e1"
    using ece_to_calibration_score_antimono by blast
  have 5: "\<forall>e1 e2. 0 \<le> e1 \<and> e1 < e2 \<and> e2 \<le> 0.2
         \<longrightarrow> ece_to_calibration_score e2 < ece_to_calibration_score e1"
    using ece_to_calibration_score_strict by blast
  have 6: "\<forall>e. 0.2 \<le> e \<longrightarrow> ece_to_calibration_score e = 0.0"
    using ece_to_calibration_score_zero_from by simp
  show ?thesis
    by (intro conjI) (rule 1 2 3 4 5 6)+
qed

text \<open>C5 at the errors 0.05 and 0.1, and at 0.3, beyond the clamp.\<close>

theorem ece_to_calibration_score_clamp_witness:
  "ece_to_calibration_score 0.1 \<le> ece_to_calibration_score 0.05
   \<and> ece_to_calibration_score 0.1 < ece_to_calibration_score 0.05
   \<and> ece_to_calibration_score 0.3 = 0"
proof -
  note T = ece_to_calibration_score_clamp [of 0]
  have a: "ece_to_calibration_score 0.1 \<le> ece_to_calibration_score 0.05"
    by (rule T [THEN conjunct2, THEN conjunct1, rule_format, of "0.05" "0.1"]) simp
  have b: "ece_to_calibration_score 0.1 < ece_to_calibration_score 0.05"
    by (rule T [THEN conjunct2, THEN conjunct2, THEN conjunct1, rule_format,
          of "0.05" "0.1"]) simp
  have c: "ece_to_calibration_score 0.3 = 0"
    using T [THEN conjunct2, THEN conjunct2, THEN conjunct2, THEN conjunct2,
          THEN conjunct1, rule_format, of "0.3"] by simp
  from a b c show ?thesis by (intro conjI)
qed

section \<open>Calibration store\<close>

lemma get_calibration_state_unseen:
  "cache cid = None \<Longrightarrow> get_calibration_state cache cid now =
     Inr \<lparr>cluster_id = cid, score = 0.5, sample_count = 0, last_updated = now,
          is_learning_mode = True, recalibration_needed = False\<rparr>"
  by (simp add: get_calibration_state_def CalibrationState_init_def)

lemma get_calibration_state_stored:
  "cache cid = Some st \<Longrightarrow> get_calibration_state cache cid now = Inr st"
  by (simp add: get_calibration_state_def)

text \<open>\<open>get_calibration_state\<close> never raises.\<close>

lemma get_calibration_state_total:
  "\<exists>c. get_calibration_state cache cid now = Inr c"
  by (cases "cache cid")
    (simp_all add: get_calibration_state_unseen get_calibration_state_stored)

lemma update_calibration_state_valid:
  "0 \<le> s \<Longrightarrow> s \<le> 1 \<Longrightarrow> 0 \<le> n \<Longrightarrow>
   update_calibration_state cache cid s n rn now =
     (Inr \<lparr>cluster_id = cid, score = s, sample_count = n, last_updated = now,
           is_learning_mode = (n < 50),
           recalibration_needed = (case rn of None \<Rightarrow> False | Some b \<Rightarrow> b)\<rparr>,
      cache(cid \<mapsto> \<lparr>cluster_id = cid, score = s, sample_count = n, last_updated = now,
           is_learning_mode = (n < 50),
           recalibration_needed = (case rn of None \<Rightarrow> False | Some b \<Rightarrow> b)\<rparr>))"
  by (simp add: update_calibration_state_def CalibrationState_init_def)

text \<open>Outside the field constraints the update raises and the cache stays as it was.\<close>

lemma update_calibration_state_invalid:
  "\<not> (0 \<le> s \<and> s \<le> 1 \<and> 0 \<le> n) \<Longrightarrow>
   snd (update_calibration_state cache cid s n rn now) = cache
   \<and> (\<exists>fs. fst (update_calibration_state cache cid s n rn now) = Inl (ValidationError fs))"
  by (auto simp add: update_calibration_state_def CalibrationState_init_def Let_def)

text \<open>
  C7, as stated, fails: a score of 2 is refused by the field constraint of
  \<open>CalibrationState\<close>, the update raises and stores nothing, and the read that follows
  returns the default record, whose score is 0.5.
\<close>

theorem update_out_of_range_then_get:
  "fst (update_calibration_state Map.empty ''test-cluster'' 2 500 None 3) =
     Inl (ValidationError [''score''])
   \<and> get_calibration_state
       (snd (update_calibration_state Map.empty ''test-cluster'' 2 500 None 3))
       ''test-cluster'' 4 =
     Inr \<lparr>cluster_id = ''test-cluster'', score = 0.5, sample_count = 0, last_updated = 4,
          is_learning_mode = True, recalibration_needed = False\<rparr>"
  by (simp add: update_calibration_state_def CalibrationState_init_def
      get_calibration_state_def)

text \<open>
  C7, amended. For every environment id, every score \<open>s\<close> with \<open>0 \<le> s \<le> 1\<close> and
  every sample count \<open>n \<ge> 0\<close>, the update returns the new record, and a read that
  follows returns it: its score is \<open>s\<close>, its sample count \<open>n\<close>, and its learning mode
  is \<open>n < 50\<close>.
\<close>

theorem update_then_get:
  assumes "0 \<le> s" and "s \<le> 1" and "0 \<le> n"
  shows "fst (update_calibration_state cache cid s n rn now) =
           Inr \<lparr>cluster_id = cid, score = s, sample_count = n, last_updated = now,
                is_learning_mode = (n < 50),
                recalibration_needed = (case rn of None \<Rightarrow> False | Some b \<Rightarrow> b)\<rparr>
       \<and> get_calibration_state (snd (update_calibration_state cache cid s n rn now)) cid now' =
           Inr \<lparr>cluster_id = cid, score = s, sample_count = n, last_updated = now,
                is_learning_mode = (n < 50),
                recalibration_needed = (case rn of None \<Rightarrow> False | Some b \<Rightarrow> b)\<rparr>"
  using assms by (simp add: update_calibration_state_valid get_calibration_state_def)

text \<open>C7, amended, at the 49 samples of the test suite.\<close>

theorem update_then_get_witness:
  "get_calibration_state
     (snd (update_calibration_state Map.empty ''small-sample'' 0.95 49 None 3))
     ''small-sample'' 4 =
   Inr \<lparr>cluster_id = ''small-sample'', score = 0.95, sample_count = 49, last_updated = 3,
        is_learning_mode = True, recalibration_needed = False\<rparr>"
  using update_then_get [of "0.95" 49 Map.empty "''small-sample''" None 3 4] by simp

text \<open>
  C8, as stated, fails: each call stamps the default record with its own reading of the
  clock, so two reads of an unseen id at the readings 7 and 9 differ in \<open>last_updated\<close>.
\<close>

theorem get_unseen_twice_differs:
  "get_calibration_state Map.empty ''never-seen-before'' 7
     \<noteq> get_calibration_state Map.empty ''never-seen-before'' 9"
  by (simp add: get_calibration_state_def CalibrationState_init_def)

text \<open>
  C8, amended. For an id that the store has never seen, two consecutive reads, at the
  clock readings \<open>t1\<close> and \<open>t2\<close>, each return the conservative default (score 0.5,
  no samples, learning mode on, no recalibration needed) stamped with the reading of the
  call: the two records agree in every field other than \<open>last_updated\<close>, and are equal
  exactly when the two readings are.
\<close>

theorem get_unseen_twice:
  assumes "cache cid = None"
  shows "get_calibration_state cache cid t1 =
           Inr \<lparr>cluster_id = cid, score = 0.5, sample_count = 0, last_updated = t1,
                is_learning_mode = True, recalibration_needed = False\<rparr>
       \<and> get_calibration_state cache cid t2 =
           Inr \<lparr>cluster_id = cid, score = 0.5, sample_count = 0, last_updated = t2,
                is_learning_mode = True, recalibration_needed = False\<rparr>
       \<and> (get_calibration_state cache cid t1 = get_calibration_state cache cid t2)
           = (t1 = t2)"
  using assms by (simp add: get_calibration_state_unseen)

text \<open>C8, amended, on the empty cache.\<close>

theorem get_unseen_twice_witness:
  "get_calibration_state Map.empty ''never-seen-before'' 7 =
           Inr \<lparr>cluster_id = ''never-seen-before'', score = 0.5, sample_count = 0,
                last_updated = 7, is_learning_mode = True, recalibration_needed = False\<rparr>
   \<and> get_calibration_state Map.empty ''never-seen-before'' 9 =
           Inr \<lparr>cluster_id = ''never-seen-before'', score = 0.5, sample_count = 0,
                last_updated = 9, is_learning_mode = True, recalibration_needed = False\<rparr>"
  using get_unseen_twice [of Map.empty "''never-seen-before''" 7 9] by simp

lemma cache_flagged_eks_prod:
  "cache_flagged ''eks-prod'' =
     Some \<lparr>cluster_id = ''eks-prod'', score = 0.92, sample_count = 1847, last_updated = 1,
           is_learning_mode = False, recalibration_needed = True\<rparr>"
  by (simp add: cache_flagged_def CalibratorAgent_trigger_recalibration_def
      update_calibration_state_valid get_calibration_state_def)

text \<open>
  C10. When the stored record of an environment has \<open>recalibration_needed\<close> set, a call
  of \<open>update_calibration_state\<close> that omits the argument and passes the field
  constraints replaces the record by one with the flag off; so does
  \<open>CalibratorAgent._update_profile\<close>, for any \<open>ece\<close> in its metrics and any sample count
  that is absent or not negative, and it reports success.
\<close>

theorem update_clears_recalibration_needed:
  assumes "cache cid = Some old" and "recalibration_needed old"
  shows "(0 \<le> s \<and> s \<le> 1 \<and> 0 \<le> n \<longrightarrow>
           (\<exists>st. update_calibration_state cache cid s n None now = (Inr st, cache(cid \<mapsto> st))
              \<and> \<not> recalibration_needed st))
       \<and> ((\<forall>k. sample_count_entry m = Some k \<longrightarrow> 0 \<le> k) \<longrightarrow>
           (\<exists>st. CalibratorAgent_update_profile cache cid m now =
                   (Inr \<lparr>success = True, data = Some (cid, st), error = None\<rparr>,
                    cache(cid \<mapsto> st))
              \<and> \<not> recalibration_needed st))"
proof (intro conjI impI)
  assume "0 \<le> s \<and> s \<le> 1 \<and> 0 \<le> n"
  then show "\<exists>st. update_calibration_state cache cid s n None now = (Inr st, cache(cid \<mapsto> st))
              \<and> \<not> recalibration_needed st"
    by (simp add: update_calibration_state_valid)
next
  assume k: "\<forall>k. sample_count_entry m = Some k \<longrightarrow> 0 \<le> k"
  define e where "e = (case ece_entry m of None \<Rightarrow> 0.1 | Some e \<Rightarrow> e)"
  define n where "n = (case sample_count_entry m of None \<Rightarrow> 0 | Some k \<Rightarrow> k)"
  have n: "0 \<le> n" using k by (simp add: n_def split: option.split)
  have "CalibratorAgent_update_profile cache cid m now =
      (case update_calibration_state cache cid (ece_to_calibration_score e) n None now of
           (Inl e, cache') \<Rightarrow> (Inl e, cache')
         | (Inr updated, cache') \<Rightarrow>
             (Inr \<lparr>success = True, data = Some (cid, updated), error = None\<rparr>, cache'))"
    by (simp add: CalibratorAgent_update_profile_def Let_def e_def n_def)
  then show "\<exists>st. CalibratorAgent_update_profile cache cid m now =
                   (Inr \<lparr>success = True, data = Some (cid, st), error = None\<rparr>,
                    cache(cid \<mapsto> st))
              \<and> \<not> recalibration_needed st"
    by (simp add: update_calibration_state_valid [OF ece_to_calibration_score_range n])
qed

text \<open>
  C10 on a cache in which \<open>eks-prod\<close> was flagged by
  \<open>CalibratorAgent._trigger_recalibration\<close>: the profile update that follows stores the
  flag off.
\<close>

theorem update_clears_recalibration_needed_witness:
  "(case cache_flagged ''eks-prod'' of None \<Rightarrow> False | Some st \<Rightarrow> recalibration_needed st)
   \<and> (case snd (CalibratorAgent_update_profile cache_flagged ''eks-prod''
                  \<lparr>ece_entry = Some 0.018, sample_count_entry = Some 1900\<rparr> 2) ''eks-prod'' of
        None \<Rightarrow> False
      | Some st \<Rightarrow> \<not> recalibration_needed st)"
proof -
  let ?old = "\<lparr>cluster_id = ''eks-prod'', score = 0.92, sample_count = 1847,
      last_updated = 1, is_learning_mode = False, recalibration_needed = True\<rparr>"
  let ?m = "\<lparr>ece_entry = Some 0.018, sample_count_entry = Some 1900\<rparr>"
  have f: "recalibration_needed ?old" by simp
  have k: "\<forall>k. sample_count_entry ?m = Some k \<longrightarrow> 0 \<le> k" by simp
  from update_clears_recalibration_needed
    [where cache = cache_flagged and cid = "''eks-prod''" and m = ?m and now = 2
      and s = 0 and n = 0, OF cache_flagged_eks_prod f,
      THEN conjunct2, THEN mp, OF k]
  obtain st where
    "CalibratorAgent_update_profile cache_flagged ''eks-prod'' ?m 2 =
       (Inr \<lparr>success = True, data = Some (''eks-prod'', st), error = None\<rparr>,
        cache_flagged(''eks-prod'' \<mapsto> st))"
    and "\<not> recalibration_needed st"
    by blast
  then show ?thesis
    by (simp add: cache_flagged_eks_prod)
qed

section \<open>Gated execution\<close>

text \<open>The three branches of \<open>execute_with_gating\<close>, each as one equation.\<close>

lemma execute_with_gating_ESCALATE:
  assumes "get_calibration_state cache cid now = Inr c"
    and "determine_action_scope c = ESCALATE"
  shows "execute_with_gating invoke cache now cid act p (calls, w) =
     (case fst (invoke ''tool_escalate_to_human'' (Escalate_params (score c) cid act p) w) of
        Inl e \<Rightarrow> Inl e
      | Inr r \<Rightarrow>
          Inr \<lparr>executed = False,
               reason = Some ''Escalated to human due to low calibration'',
               result = None, notified_human = None, action_scope = ''escalate''\<rparr>,
      calls @ [(''tool_escalate_to_human'', Escalate_params (score c) cid act p)],
      snd (invoke ''tool_escalate_to_human'' (Escalate_params (score c) cid act p) w))"
  using assms
  by (simp add: execute_with_gating_def call_tool_def split: prod.split sum.split)

lemma execute_with_gating_NOTIFY_raise:
  assumes "get_calibration_state cache cid now = Inr c"
    and "determine_action_scope c = NOTIFY"
    and "invoke act (Action_params p) w = (Inl e, w1)"
  shows "execute_with_gating invoke cache now cid act p (calls, w) =
     (Inl e, calls @ [(act, Action_params p)], w1)"
  using assms
  by (simp add: execute_with_gating_def call_tool_def split: prod.split sum.split)

lemma execute_with_gating_NOTIFY:
  assumes "get_calibration_state cache cid now = Inr c"
    and "determine_action_scope c = NOTIFY"
    and "invoke act (Action_params p) w = (Inr res, w1)"
  shows "execute_with_gating invoke cache now cid act p (calls, w) =
     (case fst (invoke ''tool_send_slack_notification'' (Slack_params ''#gpu-alerts'' act) w1) of
        Inl e \<Rightarrow> Inl e
      | Inr r \<Rightarrow>
          Inr \<lparr>executed = True, reason = None, result = Some res,
               notified_human = Some True, action_scope = ''notify''\<rparr>,
      calls @ [(act, Action_params p),
               (''tool_send_slack_notification'', Slack_params ''#gpu-alerts'' act)],
      snd (invoke ''tool_send_slack_notification'' (Slack_params ''#gpu-alerts'' act) w1))"
  using assms
  by (simp add: execute_with_gating_def call_tool_def split: prod.split sum.split)

lemma execute_with_gating_AUTONOMOUS:
  assumes "get_calibration_state cache cid now = Inr c"
    and "determine_action_scope c = AUTONOMOUS"
  shows "execute_with_gating invoke cache now cid act p (calls, w) =
     (case fst (invoke act (Action_params p) w) of
        Inl e \<Rightarrow> Inl e
      | Inr res \<Rightarrow>
          Inr \<lparr>executed = True, reason = None, result = Some res,
               notified_human = Some False, action_scope = ''autonomous''\<rparr>,
      calls @ [(act, Action_params p)],
      snd (invoke act (Action_params p) w))"
  using assms
  by (simp add: execute_with_gating_def call_tool_def split: prod.split sum.split)

lemma action_calls_at_most_one:
  "length (filter is_action_call
      (fst (snd (execute_with_gating invoke cache now cid act p ([], w))))) \<le> 1"
proof -
  obtain c where c: "get_calibration_state cache cid now = Inr c"
    using get_calibration_state_total by blast
  show ?thesis
  proof (cases "determine_action_scope c")
    case AUTONOMOUS
    show ?thesis by (simp add: execute_with_gating_AUTONOMOUS [OF c AUTONOMOUS])
  next
    case NOTIFY
    obtain r w1 where i: "invoke act (Action_params p) w = (r, w1)"
      by (cases "invoke act (Action_params p) w")
    show ?thesis
    proof (cases r)
      case (Inl e)
      with i have "invoke act (Action_params p) w = (Inl e, w1)" by simp
      from execute_with_gating_NOTIFY_raise [where invoke = invoke, OF c NOTIFY this]
      show ?thesis by simp
    next
      case (Inr res)
      with i have "invoke act (Action_params p) w = (Inr res, w1)" by simp
      from execute_with_gating_NOTIFY [where invoke = invoke, OF c NOTIFY this]
      show ?thesis by simp
    qed
  next
    case ESCALATE
    show ?thesis by (simp add: execute_with_gating_ESCALATE [OF c ESCALATE])
  qed
qed

text \<open>
  With \<open>ActorAgent.invoke_tool\<close> as the repository has it, the first tool call of every
  request raises, and so does the request.
\<close>

lemma execute_with_gating_ActorAgent_invoke_tool:
  "\<exists>m. fst (execute_with_gating ActorAgent_invoke_tool cache now cid act p st)
      = Inl (NotImplementedError m)"
proof -
  obtain c where c: "get_calibration_state cache cid now = Inr c"
    using get_calibration_state_total by blast
  show ?thesis
    by (cases "determine_action_scope c")
      (simp_all add: execute_with_gating_def c call_tool_def ActorAgent_invoke_tool_def)
qed

lemma get_cache_low:
  "get_calibration_state cache_low ''unknown-batch'' now =
     Inr \<lparr>cluster_id = ''unknown-batch'', score = 0.45, sample_count = 200,
      last_updated = 0, is_learning_mode = False, recalibration_needed = False\<rparr>"
  by (simp add: get_calibration_state_def cache_low_def)

lemma get_cache_medium:
  "get_calibration_state cache_medium ''slurm-hpc'' now =
     Inr \<lparr>cluster_id = ''slurm-hpc'', score = 0.72, sample_count = 500,
      last_updated = 0, is_learning_mode = False, recalibration_needed = False\<rparr>"
  by (simp add: get_calibration_state_def cache_medium_def)

text \<open>
  C1. For every request (any cache, clock reading, environment id, action, parameters
  and any behaviour of \<open>invoke_tool\<close>), the calibration state is read without failure,
  and the calls made contain at most one execution of the requested action. When the
  state read resolves to ESCALATE, the calls made are exactly one call, the escalation
  (so no execution of the action), and the request returns what that call decides: the
  outcome with \<open>executed = False\<close> and the reason "Escalated to human due to low
  calibration" when the call returns, and the call's own exception when it raises.
\<close>

theorem execute_with_gating_action_at_most_once:
  "(\<exists>c. get_calibration_state cache cid now = Inr c)
   \<and> length (filter is_action_call
        (fst (snd (execute_with_gating invoke cache now cid act p ([], w))))) \<le> 1
   \<and> (\<forall>c. get_calibration_state cache cid now = Inr c
            \<and> determine_action_scope c = ESCALATE \<longrightarrow>
         fst (snd (execute_with_gating invoke cache now cid act p ([], w))) =
           [(''tool_escalate_to_human'', Escalate_params (score c) cid act p)]
         \<and> length (filter is_action_call
              (fst (snd (execute_with_gating invoke cache now cid act p ([], w))))) = 0
         \<and> length (filter is_escalation_call
              (fst (snd (execute_with_gating invoke cache now cid act p ([], w))))) = 1
         \<and> fst (execute_with_gating invoke cache now cid act p ([], w)) =
             (case fst (invoke ''tool_escalate_to_human''
                          (Escalate_params (score c) cid act p) w) of
                Inl e \<Rightarrow> Inl e
              | Inr r \<Rightarrow>
                  Inr \<lparr>executed = False,
                       reason = Some ''Escalated to human due to low calibration'',
                       result = None, notified_human = None,
                       action_scope = ''escalate''\<rparr>))"
proof (intro conjI allI impI)
  show "\<exists>c. get_calibration_state cache cid now = Inr c"
    by (rule get_calibration_state_total)
  show "length (filter is_action_call
        (fst (snd (execute_with_gating invoke cache now cid act p ([], w))))) \<le> 1"
    by (rule action_calls_at_most_one)
next
  fix c
  assume h: "get_calibration_state cache cid now = Inr c
    \<and> determine_action_scope c = ESCALATE"
  note e = execute_with_gating_ESCALATE [where invoke = invoke and calls = "[]" and w = w
      and act = act and p = p, OF conjunct1 [OF h] conjunct2 [OF h]]
  show "fst (snd (execute_with_gating invoke cache now cid act p ([], w))) =
           [(''tool_escalate_to_human'', Escalate_params (score c) cid act p)]"
    by (simp add: e)
  show "length (filter is_action_call
              (fst (snd (execute_with_gating invoke cache now cid act p ([], w))))) = 0"
    by (simp add: e)
  show "length (filter is_escalation_call
              (fst (snd (execute_with_gating invoke cache now cid act p ([], w))))) = 1"
    by (simp add: e)
  show "fst (execute_with_gating invoke cache now cid act p ([], w)) =
             (case fst (invoke ''tool_escalate_to_human''
                          (Escalate_params (score c) cid act p) w) of
                Inl e \<Rightarrow> Inl e
              | Inr r \<Rightarrow>
                  Inr \<lparr>executed = False,
                       reason = Some ''Escalated to human due to low calibration'',
                       result = None, notified_human = None,
                       action_scope = ''escalate''\<rparr>)"
    by (simp add: e)
qed

text \<open>
  C1 on the environment of score 0.45 with 200 samples: one escalation call, no
  execution of the action, and the outcome of an escalated request.
\<close>

theorem execute_with_gating_action_at_most_once_witness:
  "fst (snd (execute_with_gating
               (mock_invoke_tool :: (string, unit, nat) invoke_tool)
               cache_low 5 ''unknown-batch'' ''tool_requeue_job'' ''job-1'' ([], 0))) =
     [(''tool_escalate_to_human'',
       Escalate_params 0.45 ''unknown-batch'' ''tool_requeue_job'' ''job-1'')]
   \<and> fst (execute_with_gating
               (mock_invoke_tool :: (string, unit, nat) invoke_tool)
               cache_low 5 ''unknown-batch'' ''tool_requeue_job'' ''job-1'' ([], 0)) =
     Inr \<lparr>executed = False,
          reason = Some ''Escalated to human due to low calibration'',
          result = None, notified_human = None, action_scope = ''escalate''\<rparr>"
proof -
  let ?c = "\<lparr>cluster_id = ''unknown-batch'', score = 0.45, sample_count = 200,
      last_updated = 0, is_learning_mode = False, recalibration_needed = False\<rparr>"
  have h: "get_calibration_state cache_low ''unknown-batch'' 5 = Inr ?c
    \<and> determine_action_scope ?c = ESCALATE"
    by (simp add: get_cache_low determine_action_scope_def)
  from execute_with_gating_action_at_most_once
    [where invoke = "mock_invoke_tool :: (string, unit, nat) invoke_tool"
      and cache = cache_low and now = 5 and cid = "''unknown-batch''"
      and act = "''tool_requeue_job''" and p = "''job-1''" and w = 0,
      THEN conjunct2, THEN conjunct2, rule_format, OF h]
  show ?thesis by (simp add: mock_invoke_tool_def)
qed

text \<open>
  C6, as stated, fails: on the environment of score 0.72 with 500 samples the scope is
  NOTIFY and the action runs (the count of completed tools goes from 0 to 1); the
  notification call then raises, and with it the request: no outcome is returned. The
  action is not undone.
\<close>

theorem execute_with_gating_notify_failure_propagates:
  "get_calibration_state cache_medium ''slurm-hpc'' 5 =
     Inr \<lparr>cluster_id = ''slurm-hpc'', score = 0.72, sample_count = 500,
      last_updated = 0, is_learning_mode = False, recalibration_needed = False\<rparr>
   \<and> determine_action_scope
       \<lparr>cluster_id = ''slurm-hpc'', score = 0.72, sample_count = 500,
        last_updated = 0, is_learning_mode = False, recalibration_needed = False\<rparr> = NOTIFY
   \<and> (mock_invoke_tool_slack_down :: (string, unit, nat) invoke_tool)
        ''tool_requeue_job'' (Action_params ''job-1'') 0 =
       (Inr \<lparr>success = True, data = None, error = None\<rparr>, 1)
   \<and> execute_with_gating (mock_invoke_tool_slack_down :: (string, unit, nat) invoke_tool)
        cache_medium 5 ''slurm-hpc'' ''tool_requeue_job'' ''job-1'' ([], 0) =
       (Inl (RuntimeError ''slack unavailable''),
        [(''tool_requeue_job'', Action_params ''job-1''),
         (''tool_send_slack_notification'',
          Slack_params ''#gpu-alerts'' ''tool_requeue_job'')],
        1)"
  by (simp add: get_cache_medium determine_action_scope_def mock_invoke_tool_slack_down_def
      execute_with_gating_def call_tool_def)

text \<open>
  C6, amended. In a request whose scope is NOTIFY and whose action call returns, the
  calls made are the action and then the notification, and nothing undoes the action:
  the state left behind is the one the notification call leaves, starting from the one
  the action left. Whatever \<open>ToolResult\<close> the notification call returns, a failed one
  too, the request returns the outcome with \<open>executed = True\<close> and
  \<open>notified_human = True\<close>; when the notification call raises, the request raises the same
  exception.
\<close>

theorem execute_with_gating_notify:
  assumes "get_calibration_state cache cid now = Inr c"
    and "determine_action_scope c = NOTIFY"
    and "invoke act (Action_params p) w = (Inr res, w1)"
  shows "fst (snd (execute_with_gating invoke cache now cid act p ([], w))) =
           [(act, Action_params p),
            (''tool_send_slack_notification'', Slack_params ''#gpu-alerts'' act)]
       \<and> snd (snd (execute_with_gating invoke cache now cid act p ([], w))) =
           snd (invoke ''tool_send_slack_notification''
                  (Slack_params ''#gpu-alerts'' act) w1)
       \<and> fst (execute_with_gating invoke cache now cid act p ([], w)) =
           (case fst (invoke ''tool_send_slack_notification''
                        (Slack_params ''#gpu-alerts'' act) w1) of
              Inl e \<Rightarrow> Inl e
            | Inr r \<Rightarrow>
                Inr \<lparr>executed = True, reason = None, result = Some res,
                     notified_human = Some True, action_scope = ''notify''\<rparr>)"
  by (simp add: execute_with_gating_NOTIFY [where invoke = invoke, OF assms])

text \<open>
  C6, amended, with a notification tool that returns a failed \<open>ToolResult\<close>: the request
  still returns the executed outcome.
\<close>

theorem execute_with_gating_notify_witness:
  "execute_with_gating (mock_invoke_tool_slack_refuses :: (string, unit, nat) invoke_tool)
        cache_medium 5 ''slurm-hpc'' ''tool_requeue_job'' ''job-1'' ([], 0) =
       (Inr \<lparr>executed = True, reason = None,
             result = Some \<lparr>success = True, data = None, error = None\<rparr>,
             notified_human = Some True, action_scope = ''notify''\<rparr>,
        [(''tool_requeue_job'', Action_params ''job-1''),
         (''tool_send_slack_notification'',
          Slack_params ''#gpu-alerts'' ''tool_requeue_job'')],
        1)"
proof -
  let ?c = "\<lparr>cluster_id = ''slurm-hpc'', score = 0.72, sample_count = 500,
      last_updated = 0, is_learning_mode = False, recalibration_needed = False\<rparr>"
  let ?inv = "mock_invoke_tool_slack_refuses :: (string, unit, nat) invoke_tool"
  have g: "get_calibration_state cache_medium ''slurm-hpc'' 5 = Inr ?c"
    by (rule get_cache_medium)
  have s: "determine_action_scope ?c = NOTIFY"
    by (simp add: determine_action_scope_def)
  have a: "?inv ''tool_requeue_job'' (Action_params ''job-1'') 0 =
      (Inr \<lparr>success = True, data = None, error = None\<rparr>, 1)"
    by (simp add: mock_invoke_tool_slack_refuses_def)
  from execute_with_gating_notify [where invoke = ?inv, OF g s a]
  show ?thesis
    by (simp add: mock_invoke_tool_slack_refuses_def prod_eq_iff)
qed

end
